theory Spec2Isabelle
  imports Complex_Main "HOL-Library.Char_ord" "HOL-Library.List_Lexorder"
    "HOL-Library.Multiset" "HOL-Library.Sublist"
begin

section \<open>Values, strings and errors\<close>

text \<open>
  Python strings are modelled as \<^typ>\<open>string\<close>, read as the UTF-8 encoding of the
  text: the emoji of the status messages are written as their bytes, and the
  byte-wise lexicographic order of \<^typ>\<open>string\<close> is Python's order on \<open>str\<close>
  (UTF-8 keeps the order of code points).

  A calendar date is year, month and day. The values the constructors receive
  are the scalars of Python and JSON plus a date. A float is modelled by the
  rational it denotes (every finite double is one; the comparisons of the code
  are exact on them); NaN and the infinities are not represented.
\<close>

datatype date = Date nat nat nat

datatype pyval =
    PNone
  | PBool bool
  | PInt int
  | PFloat rat
  | PStr string
  | PDate date

datatype error =
    ValueError string
  | TypeError string
  | KeyError string
  | TimestampError string

text \<open>\<open>isinstance(x, (int, float))\<close>: \<open>bool\<close> is a subclass of \<open>int\<close>.\<close>

fun is_number :: "pyval \<Rightarrow> bool" where
  "is_number (PBool b) = True"
| "is_number (PInt i) = True"
| "is_number (PFloat r) = True"
| "is_number v = False"

fun num_val :: "pyval \<Rightarrow> rat" where
  "num_val (PBool b) = (if b then 1 else 0)"
| "num_val (PInt i) = of_int i"
| "num_val (PFloat r) = r"
| "num_val v = 0"

text \<open>
  \<open>str.isspace\<close> on one character below U+0080, and \<open>not s.strip()\<close> on a whole
  string: the string is empty or made of whitespace only. The whitespace of
  Python beyond ASCII is U+0085, U+00A0, U+1680, U+2000 to U+200A, U+2028,
  U+2029, U+202F, U+205F and U+3000, recognised here by their UTF-8 bytes.
\<close>

definition ascii_space :: "char \<Rightarrow> bool" where
  "ascii_space c =
     (let n = (of_char c :: nat) in (9 \<le> n \<and> n \<le> 13) \<or> (28 \<le> n \<and> n \<le> 32))"

fun blank :: "string \<Rightarrow> bool" where
  "blank [] = True"
| "blank (c # cs) =
     (if ascii_space c then blank cs
      else if c = CHR 0xC2 then
        (case cs of
           d # ds \<Rightarrow> (d = CHR 0x85 \<or> d = CHR 0xA0) \<and> blank ds
         | [] \<Rightarrow> False)
      else if c = CHR 0xE1 then
        (case cs of
           d # e # es \<Rightarrow> d = CHR 0x9A \<and> e = CHR 0x80 \<and> blank es
         | _ \<Rightarrow> False)
      else if c = CHR 0xE2 then
        (case cs of
           d # e # es \<Rightarrow>
             ((d = CHR 0x80 \<and>
                 ((128 \<le> (of_char e :: nat) \<and> (of_char e :: nat) \<le> 138)
                  \<or> e = CHR 0xA8 \<or> e = CHR 0xA9 \<or> e = CHR 0xAF))
              \<or> (d = CHR 0x81 \<and> e = CHR 0x9F)) \<and> blank es
         | _ \<Rightarrow> False)
      else if c = CHR 0xE3 then
        (case cs of
           d # e # es \<Rightarrow> d = CHR 0x80 \<and> e = CHR 0x80 \<and> blank es
         | _ \<Rightarrow> False)
      else False)"

text \<open>\<open>not isinstance(x, str) or not x.strip()\<close>, negated.\<close>

fun nonempty_str :: "pyval \<Rightarrow> bool" where
  "nonempty_str (PStr s) = (\<not> blank s)"
| "nonempty_str v = False"

fun the_str :: "pyval \<Rightarrow> string" where
  "the_str (PStr s) = s"
| "the_str v = []"

subsection \<open>Printing numbers and dates\<close>

fun str_nat :: "nat \<Rightarrow> string" where
  "str_nat n =
     (if n < 10 then [''0123456789'' ! n]
      else str_nat (n div 10) @ [''0123456789'' ! (n mod 10)])"

declare str_nat.simps [simp del]

definition str_int :: "int \<Rightarrow> string" where
  "str_int i = (if i < 0 then ''-'' @ str_nat (nat (- i)) else str_nat (nat i))"

text \<open>Zero padding on the left, as \<open>%04d\<close> and \<open>%02d\<close> do.\<close>

definition zfill :: "nat \<Rightarrow> string \<Rightarrow> string" where
  "zfill w s = replicate (w - length s) (CHR ''0'') @ s"

text \<open>\<open>str(d)\<close> of a \<open>datetime.date\<close>: the ISO form \<open>YYYY-MM-DD\<close>.\<close>

fun isoformat :: "date \<Rightarrow> string" where
  "isoformat (Date y m d) =
     zfill 4 (str_nat y) @ ''-'' @ zfill 2 (str_nat m) @ ''-'' @ zfill 2 (str_nat d)"

text \<open>
  \<open>format(x, ".2f")\<close>: the value rounded to two decimals, ties to even, printed
  with its sign, its integer part and two digits.
\<close>

definition round_half_even :: "rat \<Rightarrow> int" where
  "round_half_even x =
     (let f = \<lfloor>x\<rfloor>; r = x - of_int f in
      if r < 1 / 2 then f
      else if 1 / 2 < r then f + 1
      else if even f then f else f + 1)"


section \<open>Vessels\<close>

text \<open>
  The class of an object: \<open>Boat\<close>, or one of its two subclasses with the
  attributes the subclass adds (\<open>cargo_capacity\<close>; \<open>weapon_count\<close> and
  \<open>is_authorised_by_gov\<close>).
\<close>

datatype cls =
    Boat
  | is_CargoBoat: CargoBoat (cargo_capacity: pyval)
  | is_MilitaryBoat: MilitaryBoat (weapon_count: pyval) (is_authorised_by_gov: bool)

text \<open>
  What \<open>Boat.__init__\<close> leaves in \<open>self.launch_date\<close> for the values of
  \<^typ>\<open>pyval\<close>: a date, or a string kept as it came. A number is converted to
  a date before it is stored and \<open>None\<close> is refused.
\<close>

datatype launch = LDate date | LStr string

record boat =
  name :: string
  launch_date :: launch
  home_port :: string
  flag :: string
  current_fleet :: "nat option"
  fleet_history :: "nat list"
  current_position :: "string option"
  position_logs :: "string list"
  klass :: cls

text \<open>
  \<open>datetime.fromtimestamp(t).date()\<close> depends on the time zone of the machine and
  raises on a timestamp out of its range, so every constructor takes it as the
  parameter \<open>fromtimestamp\<close>: \<open>Inr\<close> the local date, \<open>Inl\<close> the message of what
  it raised.
\<close>

type_synonym tzconv = "rat \<Rightarrow> string + date"

text \<open>
  The two checks of \<open>Boat.__init__\<close> on \<open>launch_date\<close> (lines 20 to 25): \<open>None\<close>
  is refused, a number is converted, anything else is kept as it is.
\<close>

definition init_launch_date :: "tzconv \<Rightarrow> pyval \<Rightarrow> error + launch" where
  "init_launch_date fromtimestamp ld =
     (case ld of
        PNone \<Rightarrow> Inl (ValueError ''Launch date cannot be empty. Please input a date.'')
      | PStr s \<Rightarrow> Inr (LStr s)
      | PDate d \<Rightarrow> Inr (LDate d)
      | _ \<Rightarrow>
          (case fromtimestamp (num_val ld) of
             Inl m \<Rightarrow> Inl (TimestampError m)
           | Inr d \<Rightarrow> Inr (LDate d)))"

text \<open>\<open>Boat.__init__\<close> (lines 12 to 41).\<close>

definition Boat_init :: "tzconv \<Rightarrow> pyval \<Rightarrow> pyval \<Rightarrow> pyval \<Rightarrow> pyval \<Rightarrow> error + boat" where
  "Boat_init fromtimestamp nm ld hp fl =
     (if \<not> nonempty_str nm then Inl (ValueError ''Ship name must be a non-empty string.'')
      else if \<not> nonempty_str hp then Inl (ValueError ''Home port must be a non-empty string.'')
      else if \<not> nonempty_str fl then Inl (ValueError ''Flag must be a non-empty string.'')
      else
        (case init_launch_date fromtimestamp ld of
           Inl e \<Rightarrow> Inl e
         | Inr l \<Rightarrow>
             Inr \<lparr>name = the_str nm, launch_date = l, home_port = the_str hp,
                  flag = the_str fl, current_fleet = None, fleet_history = [],
                  current_position = None, position_logs = [], klass = Boat\<rparr>))"

text \<open>\<open>CargoBoat.__init__\<close> (lines 98 to 113).\<close>

definition CargoBoat_init ::
  "tzconv \<Rightarrow> pyval \<Rightarrow> pyval \<Rightarrow> pyval \<Rightarrow> pyval \<Rightarrow> pyval \<Rightarrow> error + boat" where
  "CargoBoat_init fromtimestamp nm ld hp fl capacity =
     (case Boat_init fromtimestamp nm ld hp fl of
        Inl e \<Rightarrow> Inl e
      | Inr b \<Rightarrow>
          if \<not> is_number capacity then
            Inl (TypeError ''Cargo capacity must be a number (int or float).'')
          else if num_val capacity < 0 then
            Inl (ValueError ''Cargo capacity must be a positive value greater than zero.'')
          else Inr (b\<lparr>klass := CargoBoat capacity\<rparr>))"

text \<open>\<open>MilitaryBoat.__init__\<close> (lines 138 to 158).\<close>

definition MilitaryBoat_init ::
  "tzconv \<Rightarrow> pyval \<Rightarrow> pyval \<Rightarrow> pyval \<Rightarrow> pyval \<Rightarrow> pyval \<Rightarrow> pyval \<Rightarrow> error + boat" where
  "MilitaryBoat_init fromtimestamp nm ld hp fl weapons authorised =
     (case Boat_init fromtimestamp nm ld hp fl of
        Inl e \<Rightarrow> Inl e
      | Inr b \<Rightarrow>
          if \<not> is_number weapons then
            Inl (TypeError ''Weapon count must be a number (int or float).'')
          else if num_val weapons < 0 then
            Inl (ValueError ''Weapon count must be zero or a positive value.'')
          else
            (case authorised of
               PBool a \<Rightarrow> Inr (b\<lparr>klass := MilitaryBoat weapons a\<rparr>)
             | _ \<Rightarrow>
                 Inl (TypeError
                   ''Authorisation status must be a boolean value (True or False).'')))"

section \<open>Documents\<close>

text \<open>
  The dictionary \<open>to_dict\<close> builds and the loader reads, one field per key; a
  field is \<open>None\<close> when the dictionary has no such key. \<open>current_position\<close> holds
  \<open>None\<close> (JSON \<open>null\<close>) or a string, \<open>position_logs\<close> a list of strings.
\<close>

record boat_data =
  name_key :: "pyval option"
  launch_date_key :: "pyval option"
  home_port_key :: "pyval option"
  flag_key :: "pyval option"
  current_position_key :: "string option option"
  position_logs_key :: "string list option"
  cargo_capacity_key :: "pyval option"
  weapon_count_key :: "pyval option"
  is_authorised_by_gov_key :: "pyval option"

text \<open>\<open>str(self.launch_date)\<close>.\<close>

fun str_launch :: "launch \<Rightarrow> string" where
  "str_launch (LDate d) = isoformat d"
| "str_launch (LStr s) = s"

text \<open>\<open>Boat.to_dict\<close> (lines 44 to 52).\<close>

definition Boat_to_dict :: "boat \<Rightarrow> boat_data" where
  "Boat_to_dict self =
     \<lparr>name_key = Some (PStr (name self)),
      launch_date_key = Some (PStr (str_launch (launch_date self))),
      home_port_key = Some (PStr (home_port self)),
      flag_key = Some (PStr (flag self)),
      current_position_key = Some (current_position self),
      position_logs_key = Some (position_logs self),
      cargo_capacity_key = None,
      weapon_count_key = None,
      is_authorised_by_gov_key = None\<rparr>"

text \<open>
  \<open>to_dict\<close> as a call dispatches it: \<open>CargoBoat.to_dict\<close> (lines 115 to 120)
  and \<open>MilitaryBoat.to_dict\<close> (lines 160 to 167) add their keys to the
  dictionary of the parent class.
\<close>

definition to_dict :: "boat \<Rightarrow> boat_data" where
  "to_dict self =
     (case klass self of
        Boat \<Rightarrow> Boat_to_dict self
      | CargoBoat c \<Rightarrow> (Boat_to_dict self)\<lparr>cargo_capacity_key := Some c\<rparr>
      | MilitaryBoat n a \<Rightarrow>
          (Boat_to_dict self)\<lparr>weapon_count_key := Some n,
                               is_authorised_by_gov_key := Some (PBool a)\<rparr>)"

text \<open>\<open>d[k]\<close>, which raises \<open>KeyError\<close> on a missing key, and sequencing of
  steps that may raise.\<close>

definition getitem :: "'a option \<Rightarrow> string \<Rightarrow> error + 'a" where
  "getitem v k = (case v of None \<Rightarrow> Inl (KeyError k) | Some x \<Rightarrow> Inr x)"

definition and_then :: "error + 'a \<Rightarrow> ('a \<Rightarrow> error + 'b) \<Rightarrow> error + 'b" where
  "and_then r k = (case r of Inl e \<Rightarrow> Inl e | Inr x \<Rightarrow> k x)"

text \<open>Lines 341 to 345 of the loader: the position is restored when its key is there.\<close>

definition restore_position :: "boat_data \<Rightarrow> boat \<Rightarrow> boat" where
  "restore_position boat_data b =
     (let b1 = (case current_position_key boat_data of
                  None \<Rightarrow> b
                | Some p \<Rightarrow> b\<lparr>current_position := p\<rparr>)
      in case position_logs_key boat_data of
           None \<Rightarrow> b1
         | Some l \<Rightarrow> b1\<lparr>position_logs := l\<rparr>)"

text \<open>
  The body of the loader's loop up to the restored position (lines 312 to
  345): the reconstruction of one vessel from its document. The arguments of a
  constructor are read from left to right, \<open>launch_date\<close> before all.
\<close>

definition from_document :: "tzconv \<Rightarrow> boat_data \<Rightarrow> error + boat" where
  "from_document fromtimestamp boat_data =
     and_then (getitem (launch_date_key boat_data) ''launch_date'') (\<lambda>ld.
     and_then
       (if cargo_capacity_key boat_data \<noteq> None then
          and_then (getitem (name_key boat_data) ''name'') (\<lambda>nm.
          and_then (getitem (home_port_key boat_data) ''home_port'') (\<lambda>hp.
          and_then (getitem (flag_key boat_data) ''flag'') (\<lambda>fl.
          and_then (getitem (cargo_capacity_key boat_data) ''cargo_capacity'') (\<lambda>c.
            CargoBoat_init fromtimestamp nm ld hp fl c))))
        else if weapon_count_key boat_data \<noteq> None then
          and_then (getitem (name_key boat_data) ''name'') (\<lambda>nm.
          and_then (getitem (home_port_key boat_data) ''home_port'') (\<lambda>hp.
          and_then (getitem (flag_key boat_data) ''flag'') (\<lambda>fl.
          and_then (getitem (weapon_count_key boat_data) ''weapon_count'') (\<lambda>n.
          and_then (getitem (is_authorised_by_gov_key boat_data) ''is_authorised_by_gov'') (\<lambda>a.
            MilitaryBoat_init fromtimestamp nm ld hp fl n a)))))
        else
          and_then (getitem (name_key boat_data) ''name'') (\<lambda>nm.
          and_then (getitem (home_port_key boat_data) ''home_port'') (\<lambda>hp.
          and_then (getitem (flag_key boat_data) ''flag'') (\<lambda>fl.
            Boat_init fromtimestamp nm ld hp fl))))
       (\<lambda>b. Inr (restore_position boat_data b)))"

section \<open>Fleets\<close>

text \<open>
  Vessels and fleets are objects, compared by identity (the classes define no
  \<open>__eq__\<close>) and shared between the lists that hold them. The store keeps the
  objects by address: a fleet's \<open>boats\<close> is a list of vessel addresses, a
  vessel's \<open>current_fleet\<close> and \<open>fleet_history\<close> hold fleet addresses.
  \<open>next_boat\<close> is the address the next vessel the loader creates will get.

  \<open>datetime.now()\<close> is read through \<open>clock\<close>: the formatted local time of the
  \<open>n\<close>-th reading; \<open>ticks\<close> counts the readings so far.
\<close>

record fleet =
  boats :: "nat list"
  logs :: "string list"

record world =
  fleets :: "nat \<Rightarrow> fleet"
  heap :: "nat \<Rightarrow> boat"
  next_boat :: nat
  ticks :: nat

type_synonym clock = "nat \<Rightarrow> string"

text \<open>\<open>Fleet.__init__\<close> (lines 183 to 185).\<close>

definition Fleet_init :: fleet where
  "Fleet_init = \<lparr>boats = [], logs = []\<rparr>"

text \<open>Assignments to one attribute of one object of the store.\<close>

definition set_boats :: "nat \<Rightarrow> nat list \<Rightarrow> world \<Rightarrow> world" where
  "set_boats f bs w = w\<lparr>fleets := (fleets w)(f := (fleets w f)\<lparr>boats := bs\<rparr>)\<rparr>"

definition set_logs :: "nat \<Rightarrow> string list \<Rightarrow> world \<Rightarrow> world" where
  "set_logs f ls w = w\<lparr>fleets := (fleets w)(f := (fleets w f)\<lparr>logs := ls\<rparr>)\<rparr>"

definition set_current_fleet :: "nat \<Rightarrow> nat option \<Rightarrow> world \<Rightarrow> world" where
  "set_current_fleet v c w = w\<lparr>heap := (heap w)(v := (heap w v)\<lparr>current_fleet := c\<rparr>)\<rparr>"

definition set_fleet_history :: "nat \<Rightarrow> nat list \<Rightarrow> world \<Rightarrow> world" where
  "set_fleet_history v h w = w\<lparr>heap := (heap w)(v := (heap w v)\<lparr>fleet_history := h\<rparr>)\<rparr>"

text \<open>The emoji that open the status messages, and the line feed.\<close>

definition check_mark :: string where
  "check_mark = [CHR 0xE2, CHR 0x9C, CHR 0x85]"

definition cross_mark :: string where
  "cross_mark = [CHR 0xE2, CHR 0x9D, CHR 0x8C]"

definition repeat_mark :: string where
  "repeat_mark = [CHR 0xF0, CHR 0x9F, CHR 0x94, CHR 0x81]"

definition info_mark :: string where
  "info_mark = [CHR 0xE2, CHR 0x84, CHR 0xB9, CHR 0xEF, CHR 0xB8, CHR 0x8F]"


definition pin_mark :: string where
  "pin_mark = [CHR 0xF0, CHR 0x9F, CHR 0x93, CHR 0x8D]"


text \<open>\<open>Fleet.record_log\<close> (lines 256 to 259), and the entry it formats.\<close>

definition log_entry :: "string \<Rightarrow> string \<Rightarrow> string" where
  "log_entry timestamp message = ''['' @ timestamp @ ''] '' @ message"

definition record_log :: "clock \<Rightarrow> nat \<Rightarrow> string \<Rightarrow> world \<Rightarrow> world" where
  "record_log clock self message w =
     (let timestamp = clock (ticks w);
          entry = log_entry timestamp message
      in (set_logs self (logs (fleets w self) @ [entry]) w)\<lparr>ticks := Suc (ticks w)\<rparr>)"

text \<open>
  The argument of \<open>add_boat\<close>: a vessel of the store, or a value that is not an
  instance of \<open>Boat\<close>.
\<close>

datatype pyobj = BoatObj nat | OtherObj pyval

text \<open>\<open>Fleet.add_boat\<close> (lines 188 to 195).\<close>

definition add_boat :: "clock \<Rightarrow> nat \<Rightarrow> pyobj \<Rightarrow> world \<Rightarrow> string \<times> world" where
  "add_boat clock self arg w =
     (case arg of
        OtherObj x \<Rightarrow> (cross_mark @ '' Only Boat objects can be added.'', w)
      | BoatObj boat \<Rightarrow>
          (let w1 = set_boats self (boats (fleets w self) @ [boat]) w;
               w2 = set_current_fleet boat (Some self) w1;
               w3 = set_fleet_history boat (fleet_history (heap w2 boat) @ [self]) w2;
               w4 = record_log clock self (name (heap w3 boat) @ '' joined the fleet.'') w3
           in (check_mark @ '' '' @ name (heap w4 boat) @ '' successfully added to fleet'', w4)))"

text \<open>
  \<open>Fleet.sort_boats\<close> (lines 202 to 208). \<open>list.sort\<close> is a stable sort by the
  key, as \<^const>\<open>sort_key\<close> is; the parameter \<open>by\<close> is never read.
\<close>

definition sort_boats :: "nat \<Rightarrow> pyval \<Rightarrow> world \<Rightarrow> string \<times> world" where
  "sort_boats self by_arg w =
     (if boats (fleets w self) = [] then (''Empty fleet, no boats to sort'', w)
      else (check_mark @ '' Fleet sorted by ship name.'',
            set_boats self (sort_key (\<lambda>boat. name (heap w boat)) (boats (fleets w self))) w))"

text \<open>
  \<open>Fleet.transfer_boat\<close> (lines 228 to 239). \<open>boat in self.boats\<close> compares by
  identity and \<open>list.remove\<close> deletes the first occurrence.
\<close>

definition transfer_boat :: "clock \<Rightarrow> nat \<Rightarrow> nat \<Rightarrow> nat \<Rightarrow> world \<Rightarrow> string \<times> world" where
  "transfer_boat clock self boat new_fleet w =
     (if boat \<notin> set (boats (fleets w self)) then
        (cross_mark @ '' '' @ name (heap w boat) @ '' not found in this fleet.'', w)
      else
        (let w1 = set_boats self (remove1 boat (boats (fleets w self))) w;
             w2 = record_log clock self (name (heap w1 boat) @ '' left this fleet for another.'') w1;
             w3 = snd (add_boat clock new_fleet (BoatObj boat) w2);
             w4 = record_log clock self (name (heap w3 boat) @ '' transferred to new fleet.'') w3
         in (repeat_mark @ '' '' @ name (heap w4 boat) @ '' transferred successfully.'', w4)))"

text \<open>\<open>Fleet.remove_boat\<close> (lines 241 to 248).\<close>

definition remove_boat :: "clock \<Rightarrow> nat \<Rightarrow> nat \<Rightarrow> world \<Rightarrow> string \<times> world" where
  "remove_boat clock self boat w =
     (if boat \<notin> set (boats (fleets w self)) then
        (cross_mark @ '' '' @ name (heap w boat) @ '' not found in this fleet.'', w)
      else
        (let w1 = set_boats self (remove1 boat (boats (fleets w self))) w;
             w2 = set_current_fleet boat None w1;
             w3 = record_log clock self (name (heap w2 boat) @ '' was removed from the fleet.'') w2
         in (check_mark @ '' '' @ name (heap w3 boat) @ '' successfully removed from fleet'', w3)))"

text \<open>\<open>Fleet.record_arrival\<close> (lines 250 to 254).\<close>

definition record_arrival :: "clock \<Rightarrow> nat \<Rightarrow> nat \<Rightarrow> string \<Rightarrow> world \<Rightarrow> string \<times> world" where
  "record_arrival clock self boat location w =
     (if boat \<notin> set (boats (fleets w self)) then
        (cross_mark @ '' '' @ name (heap w boat) @ '' is not in this fleet.'', w)
      else
        (let w1 = record_log clock self (name (heap w boat) @ '' arrived at '' @ location @ ''.'') w
         in (pin_mark @ '' '' @ name (heap w1 boat)
               @ '' arrival recorded at '' @ location @ ''.'', w1)))"


section \<open>Loading\<close>

text \<open>
  What \<open>open\<close> and \<open>json.load\<close> give the loader: the file is missing
  (\<open>FileNotFoundError\<close>), reading or parsing raises something else (with its
  message), or the parsed document, whose keys \<open>boats\<close> and \<open>logs\<close> may be
  absent.
\<close>

record fleet_data =
  boats_key :: "boat_data list option"
  logs_key :: "string list option"

datatype saved_file = FileNotFound | OtherFailure string | Document fleet_data

text \<open>\<open>str(e)\<close> of a caught exception; a \<open>KeyError\<close> prints its key quoted.\<close>

fun str_error :: "error \<Rightarrow> string" where
  "str_error (ValueError m) = m"
| "str_error (TypeError m) = m"
| "str_error (KeyError k) = [CHR 0x27] @ k @ [CHR 0x27]"
| "str_error (TimestampError m) = m"

text \<open>
  The dictionary \<open>save_to_file\<close> hands to \<open>json.dump\<close> (lines 292 to 296),
  without \<open>saved_date\<close>, which the loader never reads.
\<close>

definition saved_document :: "nat \<Rightarrow> world \<Rightarrow> fleet_data" where
  "saved_document self w =
     \<lparr>boats_key = Some (map (\<lambda>boat. to_dict (heap w boat)) (boats (fleets w self))),
      logs_key = Some (logs (fleets w self))\<rparr>"

text \<open>
  Lines 347 to 349 of the loader, for the vessel a constructor has just built:
  it is a new object, at the address \<open>next_boat\<close>; it is appended to the
  \<open>boats\<close> of the fleet and bound to the fleet.
\<close>

definition append_loaded :: "nat \<Rightarrow> boat \<Rightarrow> world \<Rightarrow> world" where
  "append_loaded self b w =
     (let boat = next_boat w;
          w1 = w\<lparr>heap := (heap w)(boat := b), next_boat := Suc boat\<rparr>;
          w2 = set_boats self (boats (fleets w1 self) @ [boat]) w1;
          w3 = set_current_fleet boat (Some self) w2;
          w4 = set_fleet_history boat (fleet_history (heap w3 boat) @ [self]) w3
      in w4)"

text \<open>
  The loop of the loader (lines 312 to 349). An exception leaves the loop with
  the vessels loaded so far in place.
\<close>

fun load_boats :: "tzconv \<Rightarrow> nat \<Rightarrow> boat_data list \<Rightarrow> world \<Rightarrow> error option \<times> world" where
  "load_boats fromtimestamp self [] w = (None, w)"
| "load_boats fromtimestamp self (boat_data # rest) w =
     (case from_document fromtimestamp boat_data of
        Inl e \<Rightarrow> (Some e, w)
      | Inr b \<Rightarrow> load_boats fromtimestamp self rest (append_loaded self b w))"

text \<open>\<open>Fleet.load_from_file\<close> (lines 303 to 355).\<close>

definition load_from_file :: "tzconv \<Rightarrow> saved_file \<Rightarrow> nat \<Rightarrow> world \<Rightarrow> string \<times> world" where
  "load_from_file fromtimestamp f self w =
     (case f of
        FileNotFound \<Rightarrow>
          (info_mark @ '' No saved fleet data found. Starting with empty fleet.'', w)
      | OtherFailure m \<Rightarrow> (cross_mark @ '' Error loading fleet data: '' @ m, w)
      | Document d \<Rightarrow>
          (let w1 = set_boats self [] w;
               w2 = set_logs self (case logs_key d of None \<Rightarrow> [] | Some l \<Rightarrow> l) w1;
               (r, w3) = load_boats fromtimestamp self
                           (case boats_key d of None \<Rightarrow> [] | Some l \<Rightarrow> l) w2
           in case r of
                Some e \<Rightarrow> (cross_mark @ '' Error loading fleet data: '' @ str_error e, w3)
              | None \<Rightarrow>
                  (check_mark @ '' Loaded '' @ str_nat (length (boats (fleets w3 self)))
                     @ '' boats from fleet_data.json'', w3)))"

section \<open>Sequences of operations\<close>

text \<open>
  A call of \<open>add_boat\<close>, \<open>remove_boat\<close> or \<open>transfer_boat\<close> on a fleet of the
  store, and a sequence of calls run from left to right.
\<close>

datatype call =
    Add nat pyobj
  | Remove nat nat
  | Transfer nat nat nat

fun step :: "clock \<Rightarrow> call \<Rightarrow> world \<Rightarrow> world" where
  "step clock (Add self arg) w = snd (add_boat clock self arg w)"
| "step clock (Remove self boat) w = snd (remove_boat clock self boat w)"
| "step clock (Transfer self boat new_fleet) w = snd (transfer_boat clock self boat new_fleet w)"

fun run :: "clock \<Rightarrow> call list \<Rightarrow> world \<Rightarrow> world" where
  "run clock [] w = w"
| "run clock (c # cs) w = run clock cs (step clock c w)"

text \<open>
  The membership invariant: the \<open>current_fleet\<close> of a vessel is unset, or a
  fleet whose \<open>boats\<close> holds the vessel.
\<close>

definition bound_ok :: "world \<Rightarrow> nat \<Rightarrow> bool" where
  "bound_ok w v =
     (case current_fleet (heap w v) of
        None \<Rightarrow> True
      | Some f \<Rightarrow> v \<in> set (boats (fleets w f)))"

section \<open>Instances for the examples\<close>

text \<open>
  One instance of \<open>fromtimestamp\<close>: a machine whose local time is UTC. The
  timestamp is rounded to microseconds, the day number since 1970-01-01 is
  turned into a civil date, and a year outside 1 to 9999 raises.
\<close>

definition utc_fromtimestamp :: tzconv where
  "utc_fromtimestamp t =
     (let us = round_half_even (t * 1000000);
          z = us div 86400000000 + 719468;
          era = z div 146097;
          doe = z mod 146097;
          yoe = (doe - doe div 1460 + doe div 36524 - doe div 146096) div 365;
          doy = doe - (365 * yoe + yoe div 4 - yoe div 100);
          mp = (5 * doy + 2) div 153;
          d = doy - (153 * mp + 2) div 5 + 1;
          m = (if mp < 10 then mp + 3 else mp - 9);
          y = yoe + era * 400 + (if m \<le> 2 then 1 else 0)
      in if 1 \<le> y \<and> y \<le> 9999 then Inr (Date (nat y) (nat m) (nat d))
         else Inl (''year '' @ str_int y @ '' is out of range''))"

text \<open>One instance of \<open>clock\<close>: every reading is one second after the last.\<close>

definition second_clock :: clock where
  "second_clock n =
     ''2024-05-01 12:'' @ zfill 2 (str_nat ((n div 60) mod 60)) @ '':''
       @ zfill 2 (str_nat (n mod 60))"

text \<open>
  Three vessels as their constructors build them (a cargo vessel of capacity
  \<open>500.0\<close>, a military vessel with \<open>4\<close> weapons, a plain vessel), and a store
  that holds them at the addresses 0, 1 and 2 beside fleets that are all new.
\<close>

definition aurora :: boat where
  "aurora =
     \<lparr>name = ''Aurora'', launch_date = LDate (Date 2020 1 15), home_port = ''Oslo'',
      flag = ''NO'', current_fleet = None, fleet_history = [],
      current_position = None, position_logs = [], klass = CargoBoat (PFloat 500)\<rparr>"

definition bismarck :: boat where
  "bismarck =
     \<lparr>name = ''Bismarck'', launch_date = LDate (Date 1970 1 1), home_port = ''Kiel'',
      flag = ''DE'', current_fleet = None, fleet_history = [],
      current_position = None, position_logs = [], klass = MilitaryBoat (PInt 4) True\<rparr>"

definition calypso :: boat where
  "calypso =
     \<lparr>name = ''Calypso'', launch_date = LStr ''2021-03-04'', home_port = ''London'',
      flag = ''UK'', current_fleet = None, fleet_history = [],
      current_position = None, position_logs = [], klass = Boat\<rparr>"

definition harbour :: world where
  "harbour =
     \<lparr>fleets = (\<lambda>f. Fleet_init),
      heap = (\<lambda>v. calypso)(0 := aurora, 1 := bismarck),
      next_boat = 3, ticks = 0\<rparr>"

text \<open>
  The store after the cargo and the military vessel were added to fleet 0 and
  the plain vessel to fleet 1.
\<close>

definition busy_harbour :: world where
  "busy_harbour =
     run second_clock [Add 0 (BoatObj 0), Add 0 (BoatObj 1), Add 1 (BoatObj 2)] harbour"

section \<open>The examples are what the constructors build\<close>

lemma utc_epoch: "utc_fromtimestamp 0 = Inr (Date 1970 1 1)"
  by code_simp

lemma aurora_hull:
  "Boat_init utc_fromtimestamp (PStr ''Aurora'') (PDate (Date 2020 1 15)) (PStr ''Oslo'')
     (PStr ''NO'') = Inr (aurora\<lparr>klass := Boat\<rparr>)"
  by (simp add: Boat_init_def init_launch_date_def ascii_space_def aurora_def)

lemma aurora_built:
  "CargoBoat_init utc_fromtimestamp (PStr ''Aurora'') (PDate (Date 2020 1 15)) (PStr ''Oslo'')
     (PStr ''NO'') (PFloat 500) = Inr aurora"
  unfolding CargoBoat_init_def aurora_hull by (simp add: aurora_def)

lemma bismarck_built:
  "MilitaryBoat_init utc_fromtimestamp (PStr ''Bismarck'') (PInt 0) (PStr ''Kiel'')
     (PStr ''DE'') (PInt 4) (PBool True) = Inr bismarck"
  by (simp add: MilitaryBoat_init_def Boat_init_def init_launch_date_def ascii_space_def
      utc_epoch bismarck_def)

lemma calypso_built:
  "Boat_init utc_fromtimestamp (PStr ''Calypso'') (PStr ''2021-03-04'') (PStr ''London'')
     (PStr ''UK'') = Inr calypso"
  by (simp add: Boat_init_def init_launch_date_def ascii_space_def calypso_def)

section \<open>Construction\<close>

text \<open>
  C9. For a cargo vessel whose other inputs are valid (the constructor of the
  parent class succeeds on them and \<open>cargo_capacity\<close> is a number), a negative
  \<open>cargo_capacity\<close> raises the \<open>ValueError\<close> of line 109, and a capacity of
  zero or more succeeds and is stored as it was given.
\<close>

theorem cargo_capacity_sign:
  assumes "Boat_init tz nm ld hp fl = Inr b" and "is_number c"
  shows "(num_val c < 0 \<longrightarrow>
            CargoBoat_init tz nm ld hp fl c =
              Inl (ValueError ''Cargo capacity must be a positive value greater than zero.''))
       \<and> (0 \<le> num_val c \<longrightarrow>
            CargoBoat_init tz nm ld hp fl c = Inr (b\<lparr>klass := CargoBoat c\<rparr>)
            \<and> cargo_capacity (klass (b\<lparr>klass := CargoBoat c\<rparr>)) = c)"
  using assms by (simp add: CargoBoat_init_def)

theorem cargo_capacity_sign_witness:
  "CargoBoat_init utc_fromtimestamp (PStr ''Aurora'') (PDate (Date 2020 1 15)) (PStr ''Oslo'')
     (PStr ''NO'') (PFloat (- 1)) =
     Inl (ValueError ''Cargo capacity must be a positive value greater than zero.'')
   \<and> CargoBoat_init utc_fromtimestamp (PStr ''Aurora'') (PDate (Date 2020 1 15)) (PStr ''Oslo'')
     (PStr ''NO'') (PInt 0) = Inr (aurora\<lparr>klass := CargoBoat (PInt 0)\<rparr>)
   \<and> CargoBoat_init utc_fromtimestamp (PStr ''Aurora'') (PDate (Date 2020 1 15)) (PStr ''Oslo'')
     (PStr ''NO'') (PFloat (1 / 2)) = Inr (aurora\<lparr>klass := CargoBoat (PFloat (1 / 2))\<rparr>)"
  using cargo_capacity_sign [OF aurora_hull, of "PFloat (- 1)"]
    cargo_capacity_sign [OF aurora_hull, of "PInt 0"]
    cargo_capacity_sign [OF aurora_hull, of "PFloat (1 / 2)"]
  by simp

text \<open>
  C4, as the claim states it, fails: a string that is no date, the empty
  string among them, is accepted by the constructor of every variant, and an
  ISO string is kept as a string, not turned into a date.
\<close>

theorem launch_date_string_accepted:
  "Boat_init utc_fromtimestamp (PStr ''Calypso'') (PStr ''not a date'') (PStr ''London'')
     (PStr ''UK'') = Inr (calypso\<lparr>launch_date := LStr ''not a date''\<rparr>)
   \<and> Boat_init utc_fromtimestamp (PStr ''Calypso'') (PStr []) (PStr ''London'')
     (PStr ''UK'') = Inr (calypso\<lparr>launch_date := LStr []\<rparr>)
   \<and> CargoBoat_init utc_fromtimestamp (PStr ''Calypso'') (PStr ''not a date'') (PStr ''London'')
     (PStr ''UK'') (PFloat 500) =
       Inr (calypso\<lparr>launch_date := LStr ''not a date'', klass := CargoBoat (PFloat 500)\<rparr>)
   \<and> MilitaryBoat_init utc_fromtimestamp (PStr ''Calypso'') (PStr ''not a date'')
     (PStr ''London'') (PStr ''UK'') (PInt 4) (PBool True) =
       Inr (calypso\<lparr>launch_date := LStr ''not a date'', klass := MilitaryBoat (PInt 4) True\<rparr>)
   \<and> map_sum id launch_date
       (Boat_init utc_fromtimestamp (PStr ''Calypso'') (PStr ''2021-03-04'') (PStr ''London'')
          (PStr ''UK'')) = Inr (LStr ''2021-03-04'')"
  by (simp add: MilitaryBoat_init_def CargoBoat_init_def Boat_init_def init_launch_date_def
      ascii_space_def calypso_def)

text \<open>
  C4, amended. With the other inputs valid, the constructor of every variant
  treats \<open>launch_date\<close> as \<open>init_launch_date\<close> does: \<open>None\<close> raises the
  \<open>ValueError\<close> of line 21, a string of any content and a date are stored as
  they are, and a number is handed to \<open>fromtimestamp\<close>, whose date is stored
  (or whose exception leaves the constructor).
\<close>

theorem launch_date_handling:
  assumes "nonempty_str nm" and "nonempty_str hp" and "nonempty_str fl"
    and "is_number c" and "0 \<le> num_val c"
  shows "map_sum id launch_date (Boat_init tz nm ld hp fl) = init_launch_date tz ld
       \<and> map_sum id launch_date (CargoBoat_init tz nm ld hp fl c) = init_launch_date tz ld
       \<and> map_sum id launch_date (MilitaryBoat_init tz nm ld hp fl c (PBool a)) =
           init_launch_date tz ld
       \<and> init_launch_date tz PNone =
           Inl (ValueError ''Launch date cannot be empty. Please input a date.'')
       \<and> init_launch_date tz (PStr s) = Inr (LStr s)
       \<and> init_launch_date tz (PDate d) = Inr (LDate d)
       \<and> (is_number ld \<longrightarrow>
            init_launch_date tz ld =
              (case tz (num_val ld) of
                 Inl m \<Rightarrow> Inl (TimestampError m)
               | Inr d \<Rightarrow> Inr (LDate d)))"
proof -
  have hull: "map_sum id launch_date (Boat_init tz nm ld hp fl) = init_launch_date tz ld"
    using assms(1-3) by (simp add: Boat_init_def split: sum.splits)
  have cargo: "map_sum id launch_date (CargoBoat_init tz nm ld hp fl c) = init_launch_date tz ld"
    using assms(4,5) hull by (auto simp: CargoBoat_init_def split: sum.splits)
  have military:
    "map_sum id launch_date (MilitaryBoat_init tz nm ld hp fl c (PBool a)) =
       init_launch_date tz ld"
    using assms(4,5) hull by (auto simp: MilitaryBoat_init_def split: sum.splits)
  have number: "is_number ld \<longrightarrow>
      init_launch_date tz ld =
        (case tz (num_val ld) of Inl m \<Rightarrow> Inl (TimestampError m) | Inr d \<Rightarrow> Inr (LDate d))"
    by (cases ld) (simp_all add: init_launch_date_def)
  show ?thesis
    using hull cargo military number by (simp add: init_launch_date_def)
qed

theorem launch_date_handling_witness:
  "map_sum id launch_date
     (Boat_init utc_fromtimestamp (PStr ''Calypso'') (PInt 0) (PStr ''London'') (PStr ''UK'')) =
     Inr (LDate (Date 1970 1 1))
   \<and> map_sum id launch_date
     (CargoBoat_init utc_fromtimestamp (PStr ''Calypso'') (PInt 0) (PStr ''London'') (PStr ''UK'')
        (PFloat 500)) = Inr (LDate (Date 1970 1 1))
   \<and> map_sum id launch_date
     (MilitaryBoat_init utc_fromtimestamp (PStr ''Calypso'') (PInt 0) (PStr ''London'')
        (PStr ''UK'') (PFloat 500) (PBool True)) = Inr (LDate (Date 1970 1 1))"
  using launch_date_handling [of "PStr ''Calypso''" "PStr ''London''" "PStr ''UK''"
      "PFloat 500" utc_fromtimestamp "PInt 0" True]
  by (simp add: ascii_space_def utc_epoch)

section \<open>Reading the store after an assignment\<close>

lemma set_boats_reads [simp]:
  "fleets (set_boats f bs w) = (fleets w)(f := (fleets w f)\<lparr>boats := bs\<rparr>)"
  "heap (set_boats f bs w) = heap w"
  "ticks (set_boats f bs w) = ticks w"
  "next_boat (set_boats f bs w) = next_boat w"
  by (simp_all add: set_boats_def)

lemma set_logs_reads [simp]:
  "fleets (set_logs f ls w) = (fleets w)(f := (fleets w f)\<lparr>logs := ls\<rparr>)"
  "heap (set_logs f ls w) = heap w"
  "ticks (set_logs f ls w) = ticks w"
  "next_boat (set_logs f ls w) = next_boat w"
  by (simp_all add: set_logs_def)

lemma set_current_fleet_reads [simp]:
  "heap (set_current_fleet v c w) = (heap w)(v := (heap w v)\<lparr>current_fleet := c\<rparr>)"
  "fleets (set_current_fleet v c w) = fleets w"
  "ticks (set_current_fleet v c w) = ticks w"
  "next_boat (set_current_fleet v c w) = next_boat w"
  by (simp_all add: set_current_fleet_def)

lemma set_fleet_history_reads [simp]:
  "heap (set_fleet_history v h w) = (heap w)(v := (heap w v)\<lparr>fleet_history := h\<rparr>)"
  "fleets (set_fleet_history v h w) = fleets w"
  "ticks (set_fleet_history v h w) = ticks w"
  "next_boat (set_fleet_history v h w) = next_boat w"
  by (simp_all add: set_fleet_history_def)

lemma record_log_reads [simp]:
  "fleets (record_log clock f m w) =
     (fleets w)(f := (fleets w f)\<lparr>logs := logs (fleets w f) @ [log_entry (clock (ticks w)) m]\<rparr>)"
  "heap (record_log clock f m w) = heap w"
  "ticks (record_log clock f m w) = Suc (ticks w)"
  "next_boat (record_log clock f m w) = next_boat w"
  by (simp_all add: record_log_def Let_def)

section \<open>What each operation leaves in the store\<close>

lemma add_boat_boats:
  "boats (fleets (snd (add_boat clock self (BoatObj b) w)) f) =
     (if f = self then boats (fleets w self) @ [b] else boats (fleets w f))"
  by (simp add: add_boat_def Let_def)

lemma add_boat_logs:
  "logs (fleets (snd (add_boat clock self (BoatObj b) w)) f) =
     (if f = self
      then logs (fleets w self)
             @ [log_entry (clock (ticks w)) (name (heap w b) @ '' joined the fleet.'')]
      else logs (fleets w f))"
  by (simp add: add_boat_def Let_def)

lemma add_boat_heap:
  "heap (snd (add_boat clock self (BoatObj b) w)) =
     (heap w)(b := (heap w b)\<lparr>current_fleet := Some self,
                               fleet_history := fleet_history (heap w b) @ [self]\<rparr>)"
  by (simp add: add_boat_def Let_def)

lemma add_boat_ticks:
  "ticks (snd (add_boat clock self (BoatObj b) w)) = Suc (ticks w)"
  by (simp add: add_boat_def Let_def)

lemma add_boat_other:
  "add_boat clock self (OtherObj x) w = (cross_mark @ '' Only Boat objects can be added.'', w)"
  by (simp add: add_boat_def)

lemma transfer_boat_boats:
  assumes "b \<in> set (boats (fleets w A))"
  shows "boats (fleets (snd (transfer_boat clock A b B w)) f) =
     (if f = B then (if A = B then remove1 b (boats (fleets w A)) else boats (fleets w B)) @ [b]
      else if f = A then remove1 b (boats (fleets w A))
      else boats (fleets w f))"
  using assms by (simp add: transfer_boat_def Let_def add_boat_boats)

lemma transfer_boat_logs:
  assumes "b \<in> set (boats (fleets w A))"
  shows "logs (fleets (snd (transfer_boat clock A b B w)) f) =
     (if f = A then
        logs (fleets w A)
          @ [log_entry (clock (ticks w)) (name (heap w b) @ '' left this fleet for another.'')]
          @ (if A = B
             then [log_entry (clock (Suc (ticks w))) (name (heap w b) @ '' joined the fleet.'')]
             else [])
          @ [log_entry (clock (Suc (Suc (ticks w))))
               (name (heap w b) @ '' transferred to new fleet.'')]
      else if f = B then
        logs (fleets w B)
          @ [log_entry (clock (Suc (ticks w))) (name (heap w b) @ '' joined the fleet.'')]
      else logs (fleets w f))"
  using assms
  by (simp add: transfer_boat_def Let_def add_boat_heap add_boat_logs add_boat_ticks)

lemma transfer_boat_heap:
  assumes "b \<in> set (boats (fleets w A))"
  shows "heap (snd (transfer_boat clock A b B w)) =
     (heap w)(b := (heap w b)\<lparr>current_fleet := Some B,
                               fleet_history := fleet_history (heap w b) @ [B]\<rparr>)"
  using assms by (simp add: transfer_boat_def Let_def add_boat_heap)

lemma transfer_boat_ticks:
  assumes "b \<in> set (boats (fleets w A))"
  shows "ticks (snd (transfer_boat clock A b B w)) = Suc (Suc (Suc (ticks w)))"
  using assms by (simp add: transfer_boat_def Let_def add_boat_ticks)

lemma transfer_boat_absent:
  assumes "b \<notin> set (boats (fleets w A))"
  shows "snd (transfer_boat clock A b B w) = w"
  using assms by (simp add: transfer_boat_def)

lemma remove_boat_absent:
  assumes "b \<notin> set (boats (fleets w A))"
  shows "snd (remove_boat clock A b w) = w"
  using assms by (simp add: remove_boat_def)

lemma remove_boat_boats:
  assumes "b \<in> set (boats (fleets w A))"
  shows "boats (fleets (snd (remove_boat clock A b w)) f) =
     (if f = A then remove1 b (boats (fleets w A)) else boats (fleets w f))"
  using assms by (simp add: remove_boat_def Let_def)

lemma remove_boat_heap:
  assumes "b \<in> set (boats (fleets w A))"
  shows "heap (snd (remove_boat clock A b w)) =
     (heap w)(b := (heap w b)\<lparr>current_fleet := None\<rparr>)"
  using assms by (simp add: remove_boat_def Let_def)




section \<open>The membership invariant\<close>

lemma bound_ok_add:
  assumes "\<forall>v. bound_ok w v"
  shows "bound_ok (snd (add_boat clock self arg w)) v"
proof (cases arg)
  case (OtherObj x)
  then show ?thesis using assms by (simp add: add_boat_def)
next
  case (BoatObj b)
  have "bound_ok w v" using assms by simp
  then show ?thesis
    unfolding BoatObj bound_ok_def
    by (auto simp: add_boat_heap add_boat_boats split: option.splits)
qed

lemma bound_ok_remove:
  assumes "\<forall>v. bound_ok w v"
  shows "bound_ok (snd (remove_boat clock self b w)) v"
proof (cases "b \<in> set (boats (fleets w self))")
  case False
  then show ?thesis using assms by (simp add: remove_boat_absent)
next
  case True
  have "bound_ok w v" using assms by simp
  then show ?thesis
    unfolding bound_ok_def
    by (auto simp: remove_boat_heap [OF True] remove_boat_boats [OF True] split: option.splits)
qed

lemma bound_ok_transfer:
  assumes "\<forall>v. bound_ok w v"
  shows "bound_ok (snd (transfer_boat clock self b new_fleet w)) v"
proof (cases "b \<in> set (boats (fleets w self))")
  case False
  then show ?thesis using assms by (simp add: transfer_boat_absent)
next
  case True
  have "bound_ok w v" using assms by simp
  then show ?thesis
    unfolding bound_ok_def
    by (auto simp: transfer_boat_heap [OF True] transfer_boat_boats [OF True]
        split: option.splits)
qed

lemma bound_ok_step:
  assumes "\<forall>v. bound_ok w v"
  shows "\<forall>v. bound_ok (step clock c w) v"
  using assms by (cases c) (simp_all add: bound_ok_add bound_ok_remove bound_ok_transfer)

lemma bound_ok_run:
  assumes "\<forall>v. bound_ok w v"
  shows "\<forall>v. bound_ok (run clock cs w) v"
  using assms
proof (induction cs arbitrary: w)
  case Nil
  then show ?case by simp
next
  case (Cons c cs)
  have "\<forall>v. bound_ok (step clock c w) v"
    using Cons.prems by (rule bound_ok_step)
  then have "\<forall>v. bound_ok (run clock cs (step clock c w)) v"
    by (rule Cons.IH)
  then show ?case by simp
qed

text \<open>
  C5. Start from any store in which no vessel is bound to a fleet and run any
  sequence of \<open>add_boat\<close>, \<open>remove_boat\<close> and \<open>transfer_boat\<close> calls, on any
  fleets and vessels, the same vessel added to several fleets or to one fleet
  twice included: afterwards the \<open>current_fleet\<close> of every vessel is unset or
  is a fleet whose \<open>boats\<close> holds that vessel.
\<close>

theorem current_fleet_is_a_holder:
  assumes "\<forall>v. current_fleet (heap w v) = None"
  shows "bound_ok (run clock calls w) v"
proof -
  have "\<forall>v. bound_ok w v"
    using assms by (simp add: bound_ok_def)
  then have "\<forall>v. bound_ok (run clock calls w) v"
    by (rule bound_ok_run)
  then show ?thesis by simp
qed

lemma harbour_reads:
  "heap harbour = (\<lambda>v. calypso)(0 := aurora, 1 := bismarck)"
  "fleets harbour = (\<lambda>f. Fleet_init)"
  "ticks harbour = 0"
  "next_boat harbour = 3"
  by (simp_all add: harbour_def)

lemma harbour_unbound: "\<forall>v. current_fleet (heap harbour v) = None"
  by (simp add: harbour_def aurora_def bismarck_def calypso_def)

theorem current_fleet_is_a_holder_witness:
  "bound_ok
     (run second_clock
        [Add 0 (BoatObj 0), Add 1 (BoatObj 0), Add 0 (BoatObj 0), Add 1 (OtherObj PNone),
         Transfer 0 0 1, Remove 0 0] harbour) 0
   \<and> current_fleet
       (heap (run second_clock
          [Add 0 (BoatObj 0), Add 1 (BoatObj 0), Add 0 (BoatObj 0), Add 1 (OtherObj PNone),
           Transfer 0 0 1] harbour) 0) = Some 1
   \<and> boats
       (fleets (run second_clock
          [Add 0 (BoatObj 0), Add 1 (BoatObj 0), Add 0 (BoatObj 0), Add 1 (OtherObj PNone),
           Transfer 0 0 1] harbour) 1) = [0, 0]"
  using current_fleet_is_a_holder [OF harbour_unbound, of second_clock
      "[Add 0 (BoatObj 0), Add 1 (BoatObj 0), Add 0 (BoatObj 0), Add 1 (OtherObj PNone),
        Transfer 0 0 1, Remove 0 0]" 0]
  by (simp add: add_boat_heap add_boat_boats add_boat_other transfer_boat_heap
      transfer_boat_boats harbour_reads Fleet_init_def)

section \<open>Transfer\<close>

text \<open>
  C2, as the claim states it, fails. A new vessel is added to fleet 0 and
  transferred to fleet 1: the entry that \<open>add_boat\<close> writes during the transfer
  (the third reading of the clock, second 02) is the only entry of the log of
  fleet 1, and the log of fleet 0 gains the two entries of \<open>transfer_boat\<close>
  itself and nothing else.
\<close>

theorem transfer_joined_entry_on_target:
  "logs (fleets (snd (transfer_boat second_clock 0 0 1
           (snd (add_boat second_clock 0 (BoatObj 0) harbour)))) 0) =
     [''[2024-05-01 12:00:00] Aurora joined the fleet.'',
      ''[2024-05-01 12:00:01] Aurora left this fleet for another.'',
      ''[2024-05-01 12:00:03] Aurora transferred to new fleet.'']
   \<and> logs (fleets (snd (transfer_boat second_clock 0 0 1
           (snd (add_boat second_clock 0 (BoatObj 0) harbour)))) 1) =
     [''[2024-05-01 12:00:02] Aurora joined the fleet.'']"
proof -
  have member: "0 \<in> set (boats (fleets (snd (add_boat second_clock 0 (BoatObj 0) harbour)) 0))"
    by (simp add: add_boat_boats)
  show ?thesis
    by (simp add: transfer_boat_logs [OF member] add_boat_logs add_boat_heap add_boat_ticks
        harbour_reads Fleet_init_def aurora_def log_entry_def second_clock_def zfill_def
        str_nat.simps)
qed

text \<open>
  C2, amended. For a vessel of fleet \<open>A\<close>, \<open>transfer_boat\<close> appends the entry
  \<open>joined the fleet.\<close> to the log of the target \<open>B\<close>, whose \<open>add_boat\<close> writes
  it, between the two entries it appends to the log of \<open>A\<close>: the log of another
  fleet \<open>B\<close> gains that one entry and the log of \<open>A\<close> the entries
  \<open>left this fleet for another.\<close> and \<open>transferred to new fleet.\<close>; the three
  entries stand on one log only when \<open>B\<close> is \<open>A\<close> itself.
\<close>

theorem transfer_audit_entries:
  assumes "boat \<in> set (boats (fleets w A))"
  shows "logs (fleets (snd (transfer_boat clock A boat B w)) B) =
           (if A = B then
              logs (fleets w A)
                @ [log_entry (clock (ticks w))
                     (name (heap w boat) @ '' left this fleet for another.''),
                   log_entry (clock (Suc (ticks w)))
                     (name (heap w boat) @ '' joined the fleet.''),
                   log_entry (clock (Suc (Suc (ticks w))))
                     (name (heap w boat) @ '' transferred to new fleet.'')]
            else
              logs (fleets w B)
                @ [log_entry (clock (Suc (ticks w)))
                     (name (heap w boat) @ '' joined the fleet.'')])
       \<and> (A \<noteq> B \<longrightarrow>
            logs (fleets (snd (transfer_boat clock A boat B w)) A) =
              logs (fleets w A)
                @ [log_entry (clock (ticks w))
                     (name (heap w boat) @ '' left this fleet for another.''),
                   log_entry (clock (Suc (Suc (ticks w))))
                     (name (heap w boat) @ '' transferred to new fleet.'')])"
  by (simp add: transfer_boat_logs [OF assms])

theorem transfer_audit_entries_witness:
  "logs (fleets (snd (transfer_boat second_clock 0 1 2
           (snd (add_boat second_clock 0 (BoatObj 1) harbour)))) 2) =
     [log_entry (second_clock 2) ''Bismarck joined the fleet.'']
   \<and> logs (fleets (snd (transfer_boat second_clock 0 1 2
           (snd (add_boat second_clock 0 (BoatObj 1) harbour)))) 0) =
     [log_entry (second_clock 0) ''Bismarck joined the fleet.'',
      log_entry (second_clock 1) ''Bismarck left this fleet for another.'',
      log_entry (second_clock 3) ''Bismarck transferred to new fleet.'']"
proof -
  have member: "1 \<in> set (boats (fleets (snd (add_boat second_clock 0 (BoatObj 1) harbour)) 0))"
    by (simp add: add_boat_boats)
  show ?thesis
    using transfer_audit_entries [OF member, of second_clock 2]
    by (simp add: add_boat_logs add_boat_heap add_boat_ticks harbour_reads Fleet_init_def
        bismarck_def eval_nat_numeral)
qed




section \<open>Sorting\<close>

lemma sort_boats_boats:
  "boats (fleets (snd (sort_boats self by_arg w)) self) =
     sort_key (\<lambda>boat. name (heap w boat)) (boats (fleets w self))"
  by (simp add: sort_boats_def)

lemma sort_boats_heap:
  "heap (snd (sort_boats self by_arg w)) = heap w"
  by (simp add: sort_boats_def)

lemma sort_boats_sorted_same:
  assumes "sorted (map (\<lambda>boat. name (heap w boat)) (boats (fleets w self)))"
  shows "snd (sort_boats self by_arg w) = w"
  using assms by (simp add: sort_boats_def set_boats_def sort_key_id_if_sorted)

lemma sort_boats_twice:
  "snd (sort_boats self by_arg' (snd (sort_boats self by_arg w))) = snd (sort_boats self by_arg w)"
proof (rule sort_boats_sorted_same)
  show "sorted (map (\<lambda>boat. name (heap (snd (sort_boats self by_arg w)) boat))
          (boats (fleets (snd (sort_boats self by_arg w)) self)))"
    by (simp add: sort_boats_boats sort_boats_heap)
qed

text \<open>
  C7. Whatever the fleet holds and whatever is passed as \<open>by\<close>, \<open>sort_boats\<close>
  returns one of its two messages and leaves the \<open>boats\<close> of the fleet in
  nondecreasing order of the names (the byte-wise order of the strings), as a
  rearrangement of what they were in which vessels of equal name keep their
  order; the vessels themselves are untouched; a fleet that is sorted already
  is left as it is, so that sorting twice is sorting once; and the result does
  not depend on \<open>by\<close>.
\<close>

theorem sort_boats_by_name:
  "sorted (map (\<lambda>boat. name (heap w boat)) (boats (fleets (snd (sort_boats self by_arg w)) self)))
   \<and> mset (boats (fleets (snd (sort_boats self by_arg w)) self)) = mset (boats (fleets w self))
   \<and> filter (\<lambda>boat. name (heap w boat) = k) (boats (fleets (snd (sort_boats self by_arg w)) self))
       = filter (\<lambda>boat. name (heap w boat) = k) (boats (fleets w self))
   \<and> heap (snd (sort_boats self by_arg w)) = heap w
   \<and> (sorted (map (\<lambda>boat. name (heap w boat)) (boats (fleets w self))) \<longrightarrow>
        snd (sort_boats self by_arg w) = w)
   \<and> snd (sort_boats self by_arg' (snd (sort_boats self by_arg w))) =
        snd (sort_boats self by_arg w)
   \<and> sort_boats self by_arg w = sort_boats self (PStr ''name'') w
   \<and> fst (sort_boats self by_arg w) =
        (if boats (fleets w self) = [] then ''Empty fleet, no boats to sort''
         else check_mark @ '' Fleet sorted by ship name.'')"
proof -
  have stable:
    "filter (\<lambda>boat. name (heap w boat) = k) (boats (fleets (snd (sort_boats self by_arg w)) self))
       = filter (\<lambda>boat. name (heap w boat) = k) (boats (fleets w self))"
    unfolding sort_boats_boats by (rule sort_key_stable)
  have same: "sorted (map (\<lambda>boat. name (heap w boat)) (boats (fleets w self))) \<longrightarrow>
      snd (sort_boats self by_arg w) = w"
    by (simp add: sort_boats_sorted_same)
  have by_unread: "sort_boats self by_arg w = sort_boats self (PStr ''name'') w"
    by (simp add: sort_boats_def)
  have message: "fst (sort_boats self by_arg w) =
      (if boats (fleets w self) = [] then ''Empty fleet, no boats to sort''
       else check_mark @ '' Fleet sorted by ship name.'')"
    by (simp add: sort_boats_def)
  show ?thesis
    using stable same by_unread message
    by (simp add: sort_boats_boats sort_boats_heap sort_boats_twice)
qed

theorem sort_boats_by_name_witness:
  "boats (fleets (snd (sort_boats 0 (PStr ''launch_date'')
       (harbour\<lparr>fleets := (fleets harbour)(0 := \<lparr>boats = [0, 1, 2], logs = []\<rparr>)\<rparr>))) 0) = [0, 1, 2]
   \<and> boats (fleets (snd (sort_boats 0 PNone
       (harbour\<lparr>fleets := (fleets harbour)(0 := \<lparr>boats = [2, 1, 0, 2], logs = []\<rparr>)\<rparr>))) 0)
       = [0, 1, 2, 2]
   \<and> (''Zulu'' :: string) < ''alpha''"
proof -
  have sorted_already:
    "sorted (map (\<lambda>boat. name
        (heap (harbour\<lparr>fleets := (fleets harbour)(0 := \<lparr>boats = [0, 1, 2], logs = []\<rparr>)\<rparr>) boat))
       (boats (fleets
          (harbour\<lparr>fleets := (fleets harbour)(0 := \<lparr>boats = [0, 1, 2], logs = []\<rparr>)\<rparr>) 0)))"
    by (simp add: harbour_reads aurora_def bismarck_def calypso_def)
  have unsorted:
    "boats (fleets (snd (sort_boats 0 PNone
        (harbour\<lparr>fleets := (fleets harbour)(0 := \<lparr>boats = [2, 1, 0, 2], logs = []\<rparr>)\<rparr>))) 0)
       = [0, 1, 2, 2]"
    by (simp add: sort_boats_boats harbour_reads aurora_def bismarck_def calypso_def)
  have kept:
    "snd (sort_boats 0 (PStr ''launch_date'')
        (harbour\<lparr>fleets := (fleets harbour)(0 := \<lparr>boats = [0, 1, 2], logs = []\<rparr>)\<rparr>))
       = harbour\<lparr>fleets := (fleets harbour)(0 := \<lparr>boats = [0, 1, 2], logs = []\<rparr>)\<rparr>"
    using sort_boats_by_name
      [of "harbour\<lparr>fleets := (fleets harbour)(0 := \<lparr>boats = [0, 1, 2], logs = []\<rparr>)\<rparr>" 0
        "PStr ''launch_date''" "''Aurora''" PNone]
      sorted_already
    by blast
  show ?thesis
    unfolding kept using unsorted by simp
qed

section \<open>The status report\<close>






section \<open>Loading\<close>

lemma Boat_init_unbound:
  assumes "Boat_init tz nm ld hp fl = Inr b"
  shows "current_fleet b = None \<and> fleet_history b = []"
  using assms by (auto simp: Boat_init_def split: if_splits sum.splits)

lemma CargoBoat_init_unbound:
  assumes "CargoBoat_init tz nm ld hp fl c = Inr b"
  shows "current_fleet b = None \<and> fleet_history b = []"
  using assms Boat_init_unbound [of tz nm ld hp fl]
  by (auto simp: CargoBoat_init_def split: if_splits sum.splits)

lemma MilitaryBoat_init_unbound:
  assumes "MilitaryBoat_init tz nm ld hp fl n a = Inr b"
  shows "current_fleet b = None \<and> fleet_history b = []"
  using assms Boat_init_unbound [of tz nm ld hp fl]
  by (auto simp: MilitaryBoat_init_def split: if_splits sum.splits pyval.splits)

lemma restore_position_binding [simp]:
  "current_fleet (restore_position d b) = current_fleet b"
  "fleet_history (restore_position d b) = fleet_history b"
  by (simp_all add: restore_position_def Let_def split: option.splits)

lemma and_then_Inr:
  "and_then r k = Inr y \<longleftrightarrow> (\<exists>x. r = Inr x \<and> k x = Inr y)"
  by (cases r) (simp_all add: and_then_def)

lemma from_document_unbound:
  assumes "from_document tz d = Inr b"
  shows "current_fleet b = None \<and> fleet_history b = []"
  using assms
  by (auto simp: from_document_def and_then_Inr split: if_splits
      dest: Boat_init_unbound CargoBoat_init_unbound MilitaryBoat_init_unbound)

lemma upt_head: "[n ..< Suc (n + k)] = n # [Suc n ..< Suc (n + k)]"
  by (rule upt_conv_Cons) simp

lemma append_loaded_reads:
  "fleets (append_loaded self b w) =
     (fleets w)(self := (fleets w self)\<lparr>boats := boats (fleets w self) @ [next_boat w]\<rparr>)"
  "heap (append_loaded self b w) =
     (heap w)(next_boat w := b\<lparr>current_fleet := Some self,
                                 fleet_history := fleet_history b @ [self]\<rparr>)"
  "next_boat (append_loaded self b w) = Suc (next_boat w)"
  "ticks (append_loaded self b w) = ticks w"
  by (simp_all add: append_loaded_def Let_def)

lemma load_boats_next_boat:
  assumes "load_boats tz self ds w = (None, w')"
  shows "next_boat w' = next_boat w + length ds"
  using assms
proof (induction ds arbitrary: w)
  case Nil
  then show ?case by simp
next
  case (Cons d ds)
  then show ?case
    by (cases "from_document tz d") (auto simp: append_loaded_reads dest: Cons.IH)
qed

lemma load_boats_old_heap:
  assumes "load_boats tz self ds w = (r, w')" and "v < next_boat w"
  shows "heap w' v = heap w v"
  using assms
proof (induction ds arbitrary: w)
  case Nil
  then show ?case by simp
next
  case (Cons d ds)
  show ?case
  proof (cases "from_document tz d")
    case (Inl e)
    then show ?thesis using Cons.prems by simp
  next
    case (Inr b)
    then have rest: "load_boats tz self ds (append_loaded self b w) = (r, w')"
      using Cons.prems by simp
    have "heap w' v = heap (append_loaded self b w) v"
      using rest Cons.prems(2) by (intro Cons.IH) (simp_all add: append_loaded_reads)
    then show ?thesis
      using Cons.prems(2) by (simp add: append_loaded_reads)
  qed
qed

lemma load_boats_fleet:
  assumes "load_boats tz self ds w = (None, w')"
  shows "boats (fleets w' self) = boats (fleets w self) @ [next_boat w ..< next_boat w + length ds]
       \<and> logs (fleets w' self) = logs (fleets w self)"
  using assms
proof (induction ds arbitrary: w)
  case Nil
  then show ?case by simp
next
  case (Cons d ds)
  show ?case
  proof (cases "from_document tz d")
    case (Inl e)
    then show ?thesis using Cons.prems by simp
  next
    case (Inr b)
    then have rest: "load_boats tz self ds (append_loaded self b w) = (None, w')"
      using Cons.prems by simp
    have "boats (fleets w' self) =
        (boats (fleets w self) @ [next_boat w])
          @ [Suc (next_boat w) ..< Suc (next_boat w + length ds)]"
      and "logs (fleets w' self) = logs (fleets w self)"
      using Cons.IH [OF rest] by (simp_all add: append_loaded_reads del: upt_Suc)
    then show ?thesis
      by (simp add: upt_head del: upt_Suc)
  qed
qed

lemma load_boats_new_heap:
  assumes "load_boats tz self ds w = (None, w')"
  shows "map (\<lambda>v. Inr (heap w' v)) [next_boat w ..< next_boat w + length ds] =
     map (\<lambda>doc. map_sum (\<lambda>e. e) (\<lambda>b. b\<lparr>current_fleet := Some self, fleet_history := [self]\<rparr>)
            (from_document tz doc)) ds"
  using assms
proof (induction ds arbitrary: w)
  case Nil
  then show ?case by simp
next
  case (Cons d ds)
  show ?case
  proof (cases "from_document tz d")
    case (Inl e)
    then show ?thesis using Cons.prems by simp
  next
    case (Inr b)
    then have rest: "load_boats tz self ds (append_loaded self b w) = (None, w')"
      using Cons.prems by simp
    have "heap w' (next_boat w) = heap (append_loaded self b w) (next_boat w)"
      using rest by (rule load_boats_old_heap) (simp add: append_loaded_reads)
    then have first: "heap w' (next_boat w) =
        b\<lparr>current_fleet := Some self, fleet_history := [self]\<rparr>"
      using from_document_unbound [OF Inr] by (simp add: append_loaded_reads)
    have "map (\<lambda>v. Inr (heap w' v)) [Suc (next_boat w) ..< Suc (next_boat w + length ds)] =
        map (\<lambda>doc. map_sum (\<lambda>e. e) (\<lambda>b. b\<lparr>current_fleet := Some self, fleet_history := [self]\<rparr>)
               (from_document tz doc)) ds"
      using Cons.IH [OF rest] by (simp add: append_loaded_reads del: upt_Suc)
    then show ?thesis
      using first Inr by (simp add: upt_head del: upt_Suc)
  qed
qed

lemma marks_differ: "\<not> prefix check_mark (cross_mark @ s)"
  by (simp add: check_mark_def cross_mark_def)

lemma load_from_file_loaded:
  assumes "prefix check_mark (fst (load_from_file tz (Document d) self w))"
  shows "load_boats tz self (case boats_key d of None \<Rightarrow> [] | Some l \<Rightarrow> l)
           (set_logs self (case logs_key d of None \<Rightarrow> [] | Some l \<Rightarrow> l) (set_boats self [] w))
         = (None, snd (load_from_file tz (Document d) self w))"
  using assms
  by (auto simp: load_from_file_def Let_def marks_differ split: prod.splits option.splits)


lemma busy_harbour_load_ok:
  "prefix check_mark
     (fst (load_from_file utc_fromtimestamp (Document (saved_document 0 busy_harbour)) 1
        busy_harbour))"
  by code_simp


lemma loaded_binding:
  assumes run: "load_boats tz self ds w = (None, w')"
    and v: "v \<in> set [next_boat w ..< next_boat w + length ds]"
  shows "current_fleet (heap w' v) = Some self \<and> fleet_history (heap w' v) = [self]"
proof -
  have "(Inr (heap w' v) :: error + boat)
      \<in> set (map (\<lambda>v. Inr (heap w' v)) [next_boat w ..< next_boat w + length ds])"
    unfolding set_map using v by (rule imageI)
  then have "(Inr (heap w' v) :: error + boat)
      \<in> set (map (\<lambda>doc. map_sum (\<lambda>e. e)
                (\<lambda>b. b\<lparr>current_fleet := Some self, fleet_history := [self]\<rparr>)
                (from_document tz doc)) ds)"
    by (simp only: load_boats_new_heap [OF run])
  then obtain doc where
    "(Inr (heap w' v) :: error + boat) =
       map_sum (\<lambda>e. e) (\<lambda>b. b\<lparr>current_fleet := Some self, fleet_history := [self]\<rparr>)
         (from_document tz doc)"
    by auto
  then show ?thesis
    by (cases "from_document tz doc") auto
qed

text \<open>
  C10. After a load that reports success, every vessel in the \<open>boats\<close> of the
  loading fleet has that fleet as its \<open>current_fleet\<close> and, the constructor
  having left its \<open>fleet_history\<close> empty, as the one entry of its history; and
  \<open>remove_boat\<close>, \<open>transfer_boat\<close> and \<open>record_arrival\<close> of the fleet accept
  it: each returns its message of success.
\<close>

theorem loaded_vessels_are_bound:
  assumes "prefix check_mark (fst (load_from_file tz (Document d) self w))"
    and "v \<in> set (boats (fleets (snd (load_from_file tz (Document d) self w)) self))"
  shows "current_fleet (heap (snd (load_from_file tz (Document d) self w)) v) = Some self
       \<and> fleet_history (heap (snd (load_from_file tz (Document d) self w)) v) = [self]
       \<and> fst (remove_boat clock self v (snd (load_from_file tz (Document d) self w))) =
           check_mark @ '' '' @ name (heap (snd (load_from_file tz (Document d) self w)) v)
             @ '' successfully removed from fleet''
       \<and> fst (transfer_boat clock self v new_fleet (snd (load_from_file tz (Document d) self w))) =
           repeat_mark @ '' '' @ name (heap (snd (load_from_file tz (Document d) self w)) v)
             @ '' transferred successfully.''
       \<and> fst (record_arrival clock self v location (snd (load_from_file tz (Document d) self w))) =
           pin_mark @ '' '' @ name (heap (snd (load_from_file tz (Document d) self w)) v)
             @ '' arrival recorded at '' @ location @ ''.''"
proof -
  let ?w' = "snd (load_from_file tz (Document d) self w)"
  note run = load_from_file_loaded [OF assms(1)]
  have "boats (fleets ?w' self) =
      [next_boat w ..< next_boat w + length (case boats_key d of None \<Rightarrow> [] | Some l \<Rightarrow> l)]"
    using load_boats_fleet [OF run] by simp
  then have "v \<in> set [next_boat w ..< next_boat w
      + length (case boats_key d of None \<Rightarrow> [] | Some l \<Rightarrow> l)]"
    using assms(2) by simp
  then have bound: "current_fleet (heap ?w' v) = Some self \<and> fleet_history (heap ?w' v) = [self]"
    using loaded_binding [OF run] by simp
  have removed: "fst (remove_boat clock self v ?w') =
      check_mark @ '' '' @ name (heap ?w' v) @ '' successfully removed from fleet''"
    using assms(2) by (simp add: remove_boat_def Let_def)
  have moved: "fst (transfer_boat clock self v new_fleet ?w') =
      repeat_mark @ '' '' @ name (heap ?w' v) @ '' transferred successfully.''"
    using assms(2) by (simp add: transfer_boat_def Let_def add_boat_heap)
  have arrived: "fst (record_arrival clock self v location ?w') =
      pin_mark @ '' '' @ name (heap ?w' v) @ '' arrival recorded at '' @ location @ ''.''"
    using assms(2) by (simp add: record_arrival_def Let_def)
  show ?thesis
    using bound removed moved arrived by simp
qed

theorem loaded_vessels_are_bound_witness:
  "current_fleet (heap (snd (load_from_file utc_fromtimestamp
       (Document (saved_document 0 busy_harbour)) 1 busy_harbour)) 3) = Some 1
   \<and> fleet_history (heap (snd (load_from_file utc_fromtimestamp
       (Document (saved_document 0 busy_harbour)) 1 busy_harbour)) 3) = [1]
   \<and> fst (remove_boat second_clock 1 3 (snd (load_from_file utc_fromtimestamp
       (Document (saved_document 0 busy_harbour)) 1 busy_harbour))) =
       check_mark @ '' Aurora successfully removed from fleet''"
proof -
  have member: "3 \<in> set (boats (fleets (snd (load_from_file utc_fromtimestamp
      (Document (saved_document 0 busy_harbour)) 1 busy_harbour)) 1))"
    by code_simp
  have named: "name (heap (snd (load_from_file utc_fromtimestamp
      (Document (saved_document 0 busy_harbour)) 1 busy_harbour)) 3) = ''Aurora''"
    by code_simp
  show ?thesis
    using loaded_vessels_are_bound [OF busy_harbour_load_ok member, of second_clock 0 "''Oslo''"]
    unfolding named
    by simp
qed

section \<open>The round trip through a document\<close>

lemma getitem_Some [simp]: "getitem (Some x) k = Inr x"
  by (simp add: getitem_def)

lemma and_then_Inr_left [simp]: "and_then (Inr x) k = k x"
  by (simp add: and_then_def)

text \<open>
  What the round trip gives for a vessel with the attributes a constructor
  accepts: the same class and the same fields but \<open>launch_date\<close>, which comes
  back as the string \<open>to_dict\<close> made of it; the new vessel is bound to no fleet.
\<close>

lemma round_trip_fields:
  assumes "\<not> blank (name b)" and "\<not> blank (home_port b)" and "\<not> blank (flag b)"
    and "case klass b of
           Boat \<Rightarrow> True
         | CargoBoat c \<Rightarrow> is_number c \<and> 0 \<le> num_val c
         | MilitaryBoat n a \<Rightarrow> is_number n \<and> 0 \<le> num_val n"
  shows "from_document tz (to_dict b) =
     Inr (b\<lparr>launch_date := LStr (str_launch (launch_date b)),
            current_fleet := None, fleet_history := []\<rparr>)"
  using assms
  by (cases "klass b")
    (simp_all add: from_document_def to_dict_def Boat_to_dict_def Boat_init_def
      CargoBoat_init_def MilitaryBoat_init_def init_launch_date_def restore_position_def)

text \<open>
  C1, on the code: the cargo vessel the constructor builds from a date value
  comes back from \<open>to_dict\<close> and the loader as a cargo vessel with the same
  name, port, flag, position and capacity, but its \<open>launch_date\<close> is the string
  \<open>2020-01-15\<close>, not the date it was.
\<close>

theorem round_trip_loses_the_date:
  "CargoBoat_init utc_fromtimestamp (PStr ''Aurora'') (PDate (Date 2020 1 15)) (PStr ''Oslo'')
     (PStr ''NO'') (PFloat 500) = Inr aurora
   \<and> launch_date aurora = LDate (Date 2020 1 15)
   \<and> from_document utc_fromtimestamp (to_dict aurora) =
       Inr (aurora\<lparr>launch_date := LStr ''2020-01-15''\<rparr>)
   \<and> from_document utc_fromtimestamp (to_dict aurora) \<noteq> Inr aurora"
proof -
  have returned: "from_document utc_fromtimestamp (to_dict aurora) =
      Inr (aurora\<lparr>launch_date := LStr ''2020-01-15''\<rparr>)"
    by code_simp
  have differ: "aurora\<lparr>launch_date := LStr ''2020-01-15''\<rparr> \<noteq> aurora"
    by (simp add: aurora_def)
  show ?thesis
    using aurora_built returned differ by (simp add: aurora_def)
qed

end
